theory Spec2Isabelle
  imports Main "HOL-Library.Char_ord" "HOL-Library.List_Lexorder"
begin

section \<open>Data model of the TypeScript application\<close>

text \<open>
  The TypeScript routes (\<^verbatim>\<open>src/routes/*.ts\<close>) and the role resolver talk to a
  relational store through the supabase query builder. A table is the list of its rows; a
  row is a record of the columns the code reads or writes. Identifiers, e-mail addresses and
  tokens are strings; a timestamp is the number of milliseconds since the epoch, the value
  JavaScript's \<^verbatim>\<open>Date\<close> compares; SQL \<^verbatim>\<open>NULL\<close> and JavaScript \<^verbatim>\<open>null\<close>/\<^verbatim>\<open>undefined\<close> are
  \<^term>\<open>None\<close>.
\<close>

datatype role = Viewer | Editor | Owner

datatype resource_type = File | Folder

record file_row =
  f_id :: string
  f_name :: string
  f_size :: nat
  f_type :: string
  f_storage_path :: string
  f_owner_id :: string
  f_folder_id :: "string option"
  f_created_at :: int
  f_deleted_at :: "int option"

record folder_row =
  d_id :: string
  d_name :: string
  d_parent_id :: "string option"
  d_owner_id :: string
  d_created_at :: int
  d_deleted_at :: "int option"

record share_row =
  s_resource_type :: resource_type
  s_resource_id :: string
  s_owner_id :: string
  s_role :: role
  s_expires_at :: "int option"
  s_link_token :: string

record permission_row =
  p_resource_type :: resource_type
  p_resource_id :: string
  p_grantee_email :: string
  p_role :: role

record db =
  files :: "file_row list"
  folders :: "folder_row list"
  shares :: "share_row list"
  permissions :: "permission_row list"

section \<open>Query-builder and JavaScript primitives\<close>

text \<open>
  \<^verbatim>\<open>.single()\<close> yields the row when the filtered selection has exactly one row and no data
  (an error) otherwise.
\<close>

fun single :: "'a list \<Rightarrow> 'a option" where
  "single [r] = Some r"
| "single _ = None"

text \<open>
  JavaScript truthiness of a \<^verbatim>\<open>string | null | undefined\<close>: \<^verbatim>\<open>null\<close>, \<^verbatim>\<open>undefined\<close> and the
  empty string are falsy.
\<close>

fun truthy :: "string option \<Rightarrow> bool" where
  "truthy None = False"
| "truthy (Some s) = (s \<noteq> [])"

section \<open>Role resolution (\<^verbatim>\<open>resolveUserRole\<close>)\<close>

text \<open>
  \<^verbatim>\<open>supabase.from(table).select('owner_id').eq('id', resourceId).single()\<close>, with the table
  chosen by the resource type; the result is \<^verbatim>\<open>ownerRow.data?.owner_id\<close>.
\<close>

definition owner_id_of :: "db \<Rightarrow> resource_type \<Rightarrow> string \<Rightarrow> string option" where
  "owner_id_of d resourceType resourceId =
     (case resourceType of
        File \<Rightarrow> map_option f_owner_id (single (filter (\<lambda>r. f_id r = resourceId) (files d)))
      | Folder \<Rightarrow> map_option d_owner_id (single (filter (\<lambda>r. d_id r = resourceId) (folders d))))"

text \<open>
  The selection of step 3:
  \<^verbatim>\<open>from('shares').eq('resource_type', t).eq('resource_id', i).eq('link_token', tok)\<close>.
\<close>

definition link_rows :: "db \<Rightarrow> resource_type \<Rightarrow> string \<Rightarrow> string \<Rightarrow> share_row list" where
  "link_rows d resourceType resourceId tok =
     filter (\<lambda>s. s_resource_type s = resourceType \<and> s_resource_id s = resourceId
                 \<and> s_link_token s = tok) (shares d)"

text \<open>A resource exists when its table has a row with its id.\<close>

definition resource_exists :: "db \<Rightarrow> resource_type \<Rightarrow> string \<Rightarrow> bool" where
  "resource_exists d rt rid =
     (case rt of
        File \<Rightarrow> filter (\<lambda>r. f_id r = rid) (files d) \<noteq> []
      | Folder \<Rightarrow> filter (\<lambda>r. d_id r = rid) (folders d) \<noteq> [])"

text \<open>\<^verbatim>\<open>sh.data.expires_at && new Date(sh.data.expires_at) < new Date()\<close>\<close>

fun expired :: "int option \<Rightarrow> int \<Rightarrow> bool" where
  "expired None now = False"
| "expired (Some t) now = (t < now)"

text \<open>
  \<^verbatim>\<open>resolveUserRole(userId, resourceType, resourceId, shareToken)\<close>, run against the database
  \<open>d\<close> at clock reading \<open>now\<close>. Step 1 is the ownership test; the block of step 2 is empty in
  the source (the function receives no e-mail and issues no query on \<^verbatim>\<open>permissions\<close>); step 3
  is the link lookup; otherwise the result is \<^verbatim>\<open>null\<close>. The function has no \<^verbatim>\<open>throw\<close>: the
  errors of its two queries are never inspected, a failed or empty lookup simply has no data.
\<close>

definition resolveUserRole ::
  "db \<Rightarrow> int \<Rightarrow> string option \<Rightarrow> resource_type \<Rightarrow> string \<Rightarrow> string option \<Rightarrow> role option" where
  "resolveUserRole d now userId resourceType resourceId shareToken =
     (let ownerRow = owner_id_of d resourceType resourceId in
      if truthy ownerRow \<and> truthy userId \<and> ownerRow = userId then Some Owner
      else (case shareToken of
              None \<Rightarrow> None
            | Some tok \<Rightarrow>
                if tok = [] then None
                else (case single (link_rows d resourceType resourceId tok) of
                        Some sh \<Rightarrow>
                          if expired (s_expires_at sh) now then None else Some (s_role sh)
                      | None \<Rightarrow> None)))"


section \<open>Route handlers of the TypeScript application\<close>

text \<open>
  A handler runs after the \<^verbatim>\<open>authenticate\<close> middleware has put the verified token payload in
  \<^verbatim>\<open>req.user\<close>; \<open>uid\<close> is \<^verbatim>\<open>user.id\<close>. It answers either with \<^verbatim>\<open>res.json(payload)\<close> or with
  \<^verbatim>\<open>res.status(n).json({error})\<close>, and returns the store as it leaves it. Whether a statement
  sent to the store comes back with an error is not decided by the handler: each such outcome
  is an argument of the model (\<open>..._fails\<close>), and so is every value the handler obtains from
  outside (clock readings, generated identifiers).
\<close>

datatype 'a response = Json 'a | Status nat

subsection \<open>\<^verbatim>\<open>POST /api/shares/link\<close>\<close>

record link_body =
  resourceType :: "resource_type option"
  resourceId :: "string option"
  role :: "role option"
  expiresInDays :: "int option"

record link_reply =
  link :: string
  reply_role :: role
  reply_expires_at :: "int option"

fun type_name :: "resource_type \<Rightarrow> string" where
  "type_name File = ''file''"
| "type_name Folder = ''folder''"

text \<open>
  \<^verbatim>\<open>`${process.env.PUBLIC_APP_ORIGIN ?? 'http://localhost:3000'}/share/${type}/${id}?t=${token}`\<close>
\<close>

definition share_url :: "string option \<Rightarrow> resource_type \<Rightarrow> string \<Rightarrow> string \<Rightarrow> string" where
  "share_url origin rt rid tok =
     (case origin of None \<Rightarrow> ''http://localhost:3000'' | Some og \<Rightarrow> og)
       @ ''/share/'' @ type_name rt @ ''/'' @ rid @ ''?t='' @ tok"

text \<open>
  \<^verbatim>\<open>d.setDate(d.getDate() + expiresInDays)\<close> when \<^verbatim>\<open>expiresInDays && expiresInDays > 0\<close>, with a
  day taken as 86400000 ms.
\<close>

fun expiry :: "int \<Rightarrow> int option \<Rightarrow> int option" where
  "expiry now None = None"
| "expiry now (Some n) = (if n > 0 then Some (now + n * 86400000) else None)"

text \<open>
  \<^verbatim>\<open>.upsert({resource_type, resource_id, owner_id, role, expires_at},
  {onConflict: 'resource_type,resource_id'})\<close>: a row with the same (resource_type,
  resource_id) has the columns of the payload overwritten; otherwise a row is inserted. The
  payload carries no \<^verbatim>\<open>link_token\<close>, so an existing row keeps its token and an inserted row
  receives the value the store generates for that column, the argument \<open>fresh\<close>.
\<close>

definition upsert_share ::
  "share_row list \<Rightarrow> resource_type \<Rightarrow> string \<Rightarrow> string \<Rightarrow> role \<Rightarrow> int option \<Rightarrow> string
     \<Rightarrow> share_row list" where
  "upsert_share rows rt rid owner r expires_at fresh =
     (if filter (\<lambda>s. s_resource_type s = rt \<and> s_resource_id s = rid) rows = []
      then rows @ [\<lparr> s_resource_type = rt, s_resource_id = rid, s_owner_id = owner,
                      s_role = r, s_expires_at = expires_at, s_link_token = fresh \<rparr>]
      else map (\<lambda>s. if s_resource_type s = rt \<and> s_resource_id s = rid
                      then s\<lparr> s_owner_id := owner, s_role := r, s_expires_at := expires_at \<rparr>
                      else s) rows)"

definition create_link ::
  "string option \<Rightarrow> db \<Rightarrow> int \<Rightarrow> string \<Rightarrow> bool \<Rightarrow> string \<Rightarrow> link_body
     \<Rightarrow> link_reply response \<times> db" where
  "create_link origin d now fresh upsert_fails uid body =
     (case resourceType body of
        None \<Rightarrow> (Status 400, d)
      | Some rt \<Rightarrow>
     (case resourceId body of
        None \<Rightarrow> (Status 400, d)
      | Some rid \<Rightarrow>
     (case role body of
        None \<Rightarrow> (Status 400, d)
      | Some r \<Rightarrow>
          if rid = [] then (Status 400, d)
          else (case owner_id_of d rt rid of
                  None \<Rightarrow> (Status 404, d)
                | Some owner \<Rightarrow>
                    if owner \<noteq> uid then (Status 403, d)
                    else if upsert_fails then (Status 500, d)
                    else (let rows = upsert_share (shares d) rt rid uid r
                                       (expiry now (expiresInDays body)) fresh
                          in case single (filter (\<lambda>s. s_resource_type s = rt
                                                      \<and> s_resource_id s = rid) rows) of
                               None \<Rightarrow> (Status 500, d)
                             | Some row \<Rightarrow>
                                 (Json \<lparr> link = share_url origin rt rid (s_link_token row),
                                         reply_role = s_role row,
                                         reply_expires_at = s_expires_at row \<rparr>,
                                  d\<lparr> shares := rows \<rparr>))))))"

subsection \<open>Folder trash routes (\<^verbatim>\<open>DELETE /:id\<close>, \<^verbatim>\<open>POST /:id/restore\<close> of the folders router)\<close>

text \<open>
  Both handlers look the folder up, answer 404 without data and 403 to a caller who is not
  its owner, and then issue one \<^verbatim>\<open>update\<close> on \<^verbatim>\<open>folders\<close> filtered by id (the route
  parameter \<^verbatim>\<open>id\<close>, here \<open>rid\<close>). Neither issues a statement on \<^verbatim>\<open>files\<close>.
\<close>

definition soft_delete_folder ::
  "db \<Rightarrow> int \<Rightarrow> bool \<Rightarrow> string \<Rightarrow> string \<Rightarrow> string response \<times> db" where
  "soft_delete_folder d now update_fails uid rid =
     (case owner_id_of d Folder rid of
        None \<Rightarrow> (Status 404, d)
      | Some owner \<Rightarrow>
          if owner \<noteq> uid then (Status 403, d)
          else if update_fails then (Status 500, d)
          else (Json ''Moved to Trash'',
                d\<lparr> folders := map (\<lambda>r. if d_id r = rid then r\<lparr> d_deleted_at := Some now \<rparr> else r)
                                  (folders d) \<rparr>))"

definition restore_folder ::
  "db \<Rightarrow> bool \<Rightarrow> string \<Rightarrow> string \<Rightarrow> string response \<times> db" where
  "restore_folder d update_fails uid rid =
     (case owner_id_of d Folder rid of
        None \<Rightarrow> (Status 404, d)
      | Some owner \<Rightarrow>
          if owner \<noteq> uid then (Status 403, d)
          else if update_fails then (Status 500, d)
          else (Json ''Restored'',
                d\<lparr> folders := map (\<lambda>r. if d_id r = rid then r\<lparr> d_deleted_at := None \<rparr> else r)
                                  (folders d) \<rparr>))"

subsection \<open>Blob storage\<close>

text \<open>
  A storage bucket is the list of its objects, each a key with its content.
  \<^verbatim>\<open>upload(key, body, {upsert: false})\<close> is refused when the key is taken (or when the call
  fails for a reason of the store's own); \<^verbatim>\<open>remove([key])\<close> deletes the object unless the call
  fails.
\<close>

type_synonym bucket = "(string \<times> string) list"


definition storage_remove :: "bucket \<Rightarrow> bool \<Rightarrow> string \<Rightarrow> bucket" where
  "storage_remove b fails k = (if fails then b else filter (\<lambda>ob. fst ob \<noteq> k) b)"

subsection \<open>\<^verbatim>\<open>POST /api/files/upload\<close> of the files router\<close>






subsection \<open>\<^verbatim>\<open>GET /api/search\<close>\<close>
















section \<open>The Supabase server (\<^verbatim>\<open>server/index.js\<close>)\<close>

text \<open>
  The server keeps its own tables: rows carry \<^verbatim>\<open>owner\<close>, \<^verbatim>\<open>is_deleted\<close>, \<^verbatim>\<open>deleted_at\<close>,
  \<^verbatim>\<open>updated_at\<close>, and files a \<^verbatim>\<open>bucket_path\<close>. Its handlers run behind \<^verbatim>\<open>requireAuth\<close>;
  \<open>uid\<close> is \<^verbatim>\<open>req.user.id\<close>.
\<close>

record sfile_row =
  sf_id :: string
  sf_name :: string
  sf_owner :: string
  sf_folder_id :: "string option"
  sf_bucket_path :: string
  sf_size :: nat
  sf_mime :: string
  sf_is_deleted :: bool
  sf_deleted_at :: "int option"
  sf_updated_at :: "int option"

record sfolder_row =
  sd_id :: string
  sd_name :: string
  sd_parent_id :: "string option"
  sd_owner :: string
  sd_is_deleted :: bool
  sd_deleted_at :: "int option"
  sd_updated_at :: "int option"

record sdb =
  sfiles :: "sfile_row list"
  sfolders :: "sfolder_row list"

text \<open>\<^verbatim>\<open>x || null\<close> on a string that may be absent.\<close>

fun or_null :: "string option \<Rightarrow> string option" where
  "or_null None = None"
| "or_null (Some s) = (if s = [] then None else Some s)"

subsection \<open>\<^verbatim>\<open>PATCH /folders/:id/move\<close> and \<^verbatim>\<open>PATCH /files/:id/move\<close>\<close>

text \<open>
  Each handler issues a single \<^verbatim>\<open>update(...).eq("id", id).select().single()\<close> and answers
  500 on its error, otherwise with the updated row. The caller's id is available to the
  handler and is not used by it.
\<close>

definition server_move_folder ::
  "sdb \<Rightarrow> int \<Rightarrow> bool \<Rightarrow> string \<Rightarrow> string \<Rightarrow> string option \<Rightarrow> sfolder_row response \<times> sdb" where
  "server_move_folder d now update_fails uid rid parent_id =
     (let rows = map (\<lambda>r. if sd_id r = rid
                           then r\<lparr> sd_parent_id := or_null parent_id, sd_updated_at := Some now \<rparr>
                           else r) (sfolders d)
      in if update_fails then (Status 500, d)
         else (case single (filter (\<lambda>r. sd_id r = rid) rows) of
                 None \<Rightarrow> (Status 500, d)
               | Some row \<Rightarrow> (Json row, d\<lparr> sfolders := rows \<rparr>)))"

definition server_move_file ::
  "sdb \<Rightarrow> int \<Rightarrow> bool \<Rightarrow> string \<Rightarrow> string \<Rightarrow> string option \<Rightarrow> sfile_row response \<times> sdb" where
  "server_move_file d now update_fails uid rid folder_id =
     (let rows = map (\<lambda>r. if sf_id r = rid
                           then r\<lparr> sf_folder_id := or_null folder_id, sf_updated_at := Some now \<rparr>
                           else r) (sfiles d)
      in if update_fails then (Status 500, d)
         else (case single (filter (\<lambda>r. sf_id r = rid) rows) of
                 None \<Rightarrow> (Status 500, d)
               | Some row \<Rightarrow> (Json row, d\<lparr> sfiles := rows \<rparr>)))"

subsection \<open>\<^verbatim>\<open>DELETE /folders/:id\<close> and \<^verbatim>\<open>POST /restore/folder/:id\<close>\<close>

text \<open>
  \<^verbatim>\<open>select("*").eq("id", id).single()\<close> with \<^verbatim>\<open>if (fErr || !folder) return 404\<close>.
\<close>

definition select_folder :: "sdb \<Rightarrow> bool \<Rightarrow> string \<Rightarrow> sfolder_row option" where
  "select_folder d select_fails rid =
     (if select_fails then None else single (filter (\<lambda>r. sd_id r = rid) (sfolders d)))"

text \<open>
  Soft delete: the folder row is updated with \<^verbatim>\<open>deleted_at: new Date(), updated_at: new Date()\<close>
  (clock readings \<open>t_deleted\<close>, \<open>t_updated\<close>); after that statement has been awaited, the files
  with \<^verbatim>\<open>folder_id = id\<close> are updated with a further \<^verbatim>\<open>new Date()\<close> (\<open>t_files\<close>). The result of the
  second statement is not inspected.
\<close>

definition server_soft_delete_folder ::
  "sdb \<Rightarrow> int \<Rightarrow> int \<Rightarrow> int \<Rightarrow> bool \<Rightarrow> bool \<Rightarrow> bool \<Rightarrow> string \<Rightarrow> string
     \<Rightarrow> sfolder_row response \<times> sdb" where
  "server_soft_delete_folder d t_deleted t_updated t_files select_fails update_fails
       cascade_fails uid rid =
     (case select_folder d select_fails rid of
        None \<Rightarrow> (Status 404, d)
      | Some folder \<Rightarrow>
          if sd_owner folder \<noteq> uid then (Status 403, d)
          else if update_fails then (Status 500, d)
          else (let rows = map (\<lambda>r. if sd_id r = rid
                                     then r\<lparr> sd_is_deleted := True, sd_deleted_at := Some t_deleted,
                                            sd_updated_at := Some t_updated \<rparr>
                                     else r) (sfolders d)
                in case single (filter (\<lambda>r. sd_id r = rid) rows) of
                     None \<Rightarrow> (Status 500, d)
                   | Some row \<Rightarrow>
                       (Json row,
                        \<lparr> sfiles = (if cascade_fails then sfiles d
                                    else map (\<lambda>f. if sf_folder_id f = Some rid
                                                   then f\<lparr> sf_is_deleted := True,
                                                          sf_deleted_at := Some t_files \<rparr>
                                                   else f) (sfiles d)),
                          sfolders = rows \<rparr>)))"

definition server_restore_folder ::
  "sdb \<Rightarrow> int \<Rightarrow> bool \<Rightarrow> bool \<Rightarrow> bool \<Rightarrow> string \<Rightarrow> string \<Rightarrow> sfolder_row response \<times> sdb" where
  "server_restore_folder d t_updated select_fails update_fails cascade_fails uid rid =
     (case select_folder d select_fails rid of
        None \<Rightarrow> (Status 404, d)
      | Some folder \<Rightarrow>
          if sd_owner folder \<noteq> uid then (Status 403, d)
          else if update_fails then (Status 500, d)
          else (let rows = map (\<lambda>r. if sd_id r = rid
                                     then r\<lparr> sd_is_deleted := False, sd_deleted_at := None,
                                            sd_updated_at := Some t_updated \<rparr>
                                     else r) (sfolders d)
                in case single (filter (\<lambda>r. sd_id r = rid) rows) of
                     None \<Rightarrow> (Status 500, d)
                   | Some row \<Rightarrow>
                       (Json row,
                        \<lparr> sfiles = (if cascade_fails then sfiles d
                                    else map (\<lambda>f. if sf_folder_id f = Some rid
                                                   then f\<lparr> sf_is_deleted := False,
                                                          sf_deleted_at := None \<rparr>
                                                   else f) (sfiles d)),
                          sfolders = rows \<rparr>)))"

subsection \<open>\<^verbatim>\<open>DELETE /folders/:id/hard\<close>\<close>

text \<open>
  The loop \<^verbatim>\<open>for (const f of files) { try { await bucket.remove([f.bucket_path]) } catch ... }\<close>:
  a removal that fails (\<open>rm_fails\<close> of its path) is passed over and the loop goes on.
\<close>

fun remove_blobs :: "(string \<Rightarrow> bool) \<Rightarrow> string list \<Rightarrow> bucket \<Rightarrow> bucket" where
  "remove_blobs rm_fails [] b = b"
| "remove_blobs rm_fails (p # ps) b = remove_blobs rm_fails ps (storage_remove b (rm_fails p) p)"

text \<open>
  After the ownership gate the handler lists the folder's files (500 on error), removes
  their blobs, deletes the file rows with \<^verbatim>\<open>folder_id = id\<close> (result not inspected), deletes the
  folder row (500 on error) and answers \<^verbatim>\<open>{ok: true}\<close>.
\<close>

definition server_hard_delete_folder ::
  "sdb \<Rightarrow> bucket \<Rightarrow> bool \<Rightarrow> bool \<Rightarrow> (string \<Rightarrow> bool) \<Rightarrow> bool \<Rightarrow> bool \<Rightarrow> string \<Rightarrow> string
     \<Rightarrow> unit response \<times> sdb \<times> bucket" where
  "server_hard_delete_folder d b select_fails list_fails rm_fails files_delete_fails
       folder_delete_fails uid rid =
     (case select_folder d select_fails rid of
        None \<Rightarrow> (Status 404, d, b)
      | Some folder \<Rightarrow>
          if sd_owner folder \<noteq> uid then (Status 403, d, b)
          else if list_fails then (Status 500, d, b)
          else (let fs = filter (\<lambda>f. sf_folder_id f = Some rid) (sfiles d);
                    b1 = remove_blobs rm_fails (map sf_bucket_path fs) b;
                    files1 = (if files_delete_fails then sfiles d
                              else filter (\<lambda>f. sf_folder_id f \<noteq> Some rid) (sfiles d))
                in if folder_delete_fails then (Status 500, d\<lparr> sfiles := files1 \<rparr>, b1)
                   else (Json (),
                         \<lparr> sfiles = files1, sfolders = filter (\<lambda>r. sd_id r \<noteq> rid) (sfolders d) \<rparr>,
                         b1)))"

subsection \<open>\<^verbatim>\<open>POST /files/upload\<close>\<close>



section \<open>Example states\<close>

text \<open>
  A database of the TypeScript application: Alice owns the file \<open>f1\<close> and the folder \<open>docs\<close>
  that holds it; \<open>f1\<close> has an editor link with token \<open>T\<close> and no expiry, and a viewer grant
  for \<open>bob@example.com\<close>; \<open>docs\<close> has a viewer link that expired at time 500; a link row is
  left over for the purged file \<open>gone\<close>.
\<close>

definition file_f1 :: file_row where
  "file_f1 = \<lparr> f_id = ''f1'', f_name = ''x.txt'', f_size = 3, f_type = ''text/plain'',
               f_storage_path = ''alice/u1_x.txt'', f_owner_id = ''alice'',
               f_folder_id = Some ''docs'', f_created_at = 100, f_deleted_at = None \<rparr>"

definition folder_docs :: folder_row where
  "folder_docs = \<lparr> d_id = ''docs'', d_name = ''Docs'', d_parent_id = None,
                   d_owner_id = ''alice'', d_created_at = 50, d_deleted_at = None \<rparr>"

definition link_f1 :: share_row where
  "link_f1 = \<lparr> s_resource_type = File, s_resource_id = ''f1'', s_owner_id = ''alice'',
               s_role = Editor, s_expires_at = None, s_link_token = ''T'' \<rparr>"

definition link_docs :: share_row where
  "link_docs = \<lparr> s_resource_type = Folder, s_resource_id = ''docs'', s_owner_id = ''alice'',
                 s_role = Viewer, s_expires_at = Some 500, s_link_token = ''D'' \<rparr>"

definition link_gone :: share_row where
  "link_gone = \<lparr> s_resource_type = File, s_resource_id = ''gone'', s_owner_id = ''alice'',
                 s_role = Viewer, s_expires_at = None, s_link_token = ''G'' \<rparr>"

definition grant_bob :: permission_row where
  "grant_bob = \<lparr> p_resource_type = File, p_resource_id = ''f1'',
                 p_grantee_email = ''bob@example.com'', p_role = Viewer \<rparr>"

definition db0 :: db where
  "db0 = \<lparr> files = [file_f1], folders = [folder_docs],
           shares = [link_f1, link_docs, link_gone], permissions = [grant_bob] \<rparr>"

text \<open>
  The link scenario: in \<open>db1\<close> the file \<open>f1\<close> has no link; Alice posts a viewer link (the
  store generates the token \<open>T1\<close> for the new row), then posts again for the same file with
  role editor (the store would generate \<open>T2\<close> for a new row).
\<close>

definition db1 :: db where
  "db1 = \<lparr> files = [file_f1], folders = [folder_docs], shares = [], permissions = [] \<rparr>"

definition body_viewer :: link_body where
  "body_viewer = \<lparr> resourceType = Some File, resourceId = Some ''f1'', role = Some Viewer,
                   expiresInDays = None \<rparr>"

definition body_editor :: link_body where
  "body_editor = \<lparr> resourceType = Some File, resourceId = Some ''f1'', role = Some Editor,
                   expiresInDays = None \<rparr>"

definition db_created :: db where
  "db_created = snd (create_link None db1 1000 ''T1'' False ''alice'' body_viewer)"

definition db_rotated :: db where
  "db_rotated = snd (create_link None db_created 2000 ''T2'' False ''alice'' body_editor)"

text \<open>
  A state of the Supabase server: Alice owns the folder \<open>F\<close> with the files \<open>a\<close> and \<open>b\<close>,
  whose blobs are in the bucket; Bob owns the folder \<open>X\<close>. \<open>fails_b\<close> is the storage that
  fails to remove \<open>b\<close>'s blob.
\<close>

definition sfolder_F :: sfolder_row where
  "sfolder_F = \<lparr> sd_id = ''F'', sd_name = ''Docs'', sd_parent_id = None, sd_owner = ''alice'',
                 sd_is_deleted = False, sd_deleted_at = None, sd_updated_at = None \<rparr>"

definition sfolder_X :: sfolder_row where
  "sfolder_X = \<lparr> sd_id = ''X'', sd_name = ''Stuff'', sd_parent_id = None, sd_owner = ''bob'',
                 sd_is_deleted = False, sd_deleted_at = None, sd_updated_at = None \<rparr>"

definition sfile_a :: sfile_row where
  "sfile_a = \<lparr> sf_id = ''a'', sf_name = ''a.txt'', sf_owner = ''alice'', sf_folder_id = Some ''F'',
               sf_bucket_path = ''user-alice/a_a.txt'', sf_size = 1, sf_mime = ''text/plain'',
               sf_is_deleted = False, sf_deleted_at = None, sf_updated_at = None \<rparr>"

definition sfile_b :: sfile_row where
  "sfile_b = \<lparr> sf_id = ''b'', sf_name = ''b.txt'', sf_owner = ''alice'', sf_folder_id = Some ''F'',
               sf_bucket_path = ''user-alice/b_b.txt'', sf_size = 1, sf_mime = ''text/plain'',
               sf_is_deleted = False, sf_deleted_at = None, sf_updated_at = None \<rparr>"

definition sdb0 :: sdb where
  "sdb0 = \<lparr> sfiles = [sfile_a, sfile_b], sfolders = [sfolder_F, sfolder_X] \<rparr>"

definition bucket0 :: bucket where
  "bucket0 = [(''user-alice/a_a.txt'', ''A''), (''user-alice/b_b.txt'', ''B'')]"

definition fails_b :: "string \<Rightarrow> bool" where
  "fails_b p = (p = ''user-alice/b_b.txt'')"










section \<open>Properties\<close>

lemma single_Some_iff: "single xs = Some r \<longleftrightarrow> xs = [r]"
  by (cases xs rule: single.cases) auto

lemma filter_singleton_mem:
  assumes "filter P xs = [s]" and "l \<in> set xs" and "P l"
  shows "s = l"
proof -
  from assms(2,3) have "l \<in> set (filter P xs)" by simp
  with assms(1) show ?thesis by simp
qed

lemmas example_defs =
  db0_def file_f1_def folder_docs_def link_f1_def link_docs_def link_gone_def grant_bob_def

subsection \<open>The role resolver\<close>



text \<open>
  Claim C6. For every link row \<open>l\<close> whose \<open>expires_at\<close> lies before the clock reading,
  resolving with no principal and \<open>l\<close>'s token returns none, never \<open>l\<close>'s role; and a token
  carried by no link row of the resource also resolves to none. There is no default role to
  fall through to.
\<close>

theorem expired_or_unmatched_token_resolves_none:
  "(l \<in> set (shares d) \<and> s_expires_at l = Some e \<and> e < now \<longrightarrow>
      resolveUserRole d now None (s_resource_type l) (s_resource_id l) (Some (s_link_token l))
        = None)
   \<and> (link_rows d rt rid tok = [] \<longrightarrow>
      resolveUserRole d now None rt rid (Some tok) = None)"
proof (intro conjI impI)
  assume h: "l \<in> set (shares d) \<and> s_expires_at l = Some e \<and> e < now"
  let ?rows = "link_rows d (s_resource_type l) (s_resource_id l) (s_link_token l)"
  show "resolveUserRole d now None (s_resource_type l) (s_resource_id l)
          (Some (s_link_token l)) = None"
  proof (cases "single ?rows")
    case None
    then show ?thesis by (simp add: resolveUserRole_def)
  next
    case (Some sh)
    then have "?rows = [sh]" by (simp add: single_Some_iff)
    then have "sh = l"
      unfolding link_rows_def using h by (auto dest: filter_singleton_mem)
    with Some h show ?thesis by (simp add: resolveUserRole_def)
  qed
next
  assume "link_rows d rt rid tok = []"
  then show "resolveUserRole d now None rt rid (Some tok) = None"
    by (simp add: resolveUserRole_def)
qed

theorem expired_or_unmatched_token_resolves_none_witness:
  "link_docs \<in> set (shares db0) \<and> s_expires_at link_docs = Some 500 \<and> (500::int) < 1000
   \<and> resolveUserRole db0 1000 None Folder ''docs'' (Some ''D'') = None
   \<and> link_rows db0 File ''f1'' ''wrong'' = []
   \<and> resolveUserRole db0 1000 None File ''f1'' (Some ''wrong'') = None"
proof -
  have a: "link_docs \<in> set (shares db0) \<and> s_expires_at link_docs = Some 500
             \<and> (500::int) < 1000"
    by (simp add: example_defs)
  have b: "link_rows db0 File ''f1'' ''wrong'' = []"
    by (simp add: link_rows_def example_defs)
  have c: "s_resource_type link_docs = Folder" "s_resource_id link_docs = ''docs''"
    "s_link_token link_docs = ''D''" by (simp_all add: link_docs_def)
  show ?thesis
    using a b
      expired_or_unmatched_token_resolves_none
        [of link_docs db0 500 1000 File "''f1''" "''wrong''"]
    by (simp add: c)
qed

lemma owner_id_of_missing: "\<not> resource_exists d rt rid \<Longrightarrow> owner_id_of d rt rid = None"
  by (cases rt) (simp_all add: resource_exists_def owner_id_of_def)

text \<open>
  Claim C5 says that resolving a resource that is not in the store fails with NotFound and
  never silently returns none or a role. \<open>resolveUserRole\<close> has no failing outcome at all. In
  \<open>db0\<close> no file has the id \<open>gone\<close>: resolving it for Bob without a token returns none, and
  resolving it with the token of the link row left over for it returns that link's role.
\<close>

theorem missing_resource_not_found_counterexample:
  "\<not> resource_exists db0 File ''gone''
   \<and> resolveUserRole db0 1000 (Some ''bob'') File ''gone'' None = None
   \<and> resolveUserRole db0 1000 None File ''gone'' (Some ''G'') = Some Viewer"
  by (simp add: resource_exists_def resolveUserRole_def owner_id_of_def link_rows_def
        example_defs)

text \<open>
  Claim C5, amended. For every resolve call whose (resourceType, resourceId) has no row in
  the resource store, \<open>resolveUserRole\<close> does not fail: the ownership step finds nothing and
  the call returns none when no token is supplied or no link row of that resource carries
  the token, and returns the link's role when the supplied token is that of the single,
  unexpired link row stored for that (type, id).
\<close>

theorem missing_resource_resolves_by_link_only:
  assumes "\<not> resource_exists d rt rid"
  shows "resolveUserRole d now userId rt rid None = None
     \<and> (link_rows d rt rid tok = [sh] \<and> tok \<noteq> [] \<and> \<not> expired (s_expires_at sh) now \<longrightarrow>
          resolveUserRole d now userId rt rid (Some tok) = Some (s_role sh))
     \<and> (link_rows d rt rid tok = [] \<longrightarrow> resolveUserRole d now userId rt rid (Some tok) = None)"
  using owner_id_of_missing [OF assms] by (simp add: resolveUserRole_def)

theorem missing_resource_resolves_by_link_only_witness:
  "\<not> resource_exists db0 File ''gone''
   \<and> resolveUserRole db0 1000 (Some ''bob'') File ''gone'' None = None
   \<and> link_rows db0 File ''gone'' ''G'' = [link_gone] \<and> ''G'' \<noteq> []
   \<and> \<not> expired (s_expires_at link_gone) 1000
   \<and> resolveUserRole db0 1000 (Some ''bob'') File ''gone'' (Some ''G'') = Some Viewer
   \<and> link_rows db0 File ''gone'' ''H'' = []
   \<and> resolveUserRole db0 1000 (Some ''bob'') File ''gone'' (Some ''H'') = None"
proof -
  have a: "\<not> resource_exists db0 File ''gone''"
    by (simp add: resource_exists_def example_defs)
  have b: "link_rows db0 File ''gone'' ''G'' = [link_gone]"
    by (simp add: link_rows_def example_defs)
  have c: "\<not> expired (s_expires_at link_gone) 1000" "s_role link_gone = Viewer"
    by (simp_all add: link_gone_def)
  have e: "link_rows db0 File ''gone'' ''H'' = []"
    by (simp add: link_rows_def example_defs)
  show ?thesis
    using a b c e
      missing_resource_resolves_by_link_only [OF a, of 1000 "Some ''bob''" "''G''" link_gone]
      missing_resource_resolves_by_link_only [OF a, of 1000 "Some ''bob''" "''H''" link_gone]
    by simp
qed

text \<open>
  Claim C1 says that with a viewer grant for the caller's e-mail and an editor link on the
  same resource, resolution with the valid token returns viewer. In \<open>db0\<close> the file \<open>f1\<close>
  has the viewer grant for \<open>bob@example.com\<close> and the editor link with token \<open>T\<close>; resolving
  for the principal Bob with that token returns editor.
\<close>

theorem grant_outranks_link_counterexample:
  "grant_bob \<in> set (permissions db0) \<and> p_role grant_bob = Viewer
   \<and> p_resource_type grant_bob = File \<and> p_resource_id grant_bob = ''f1''
   \<and> link_rows db0 File ''f1'' ''T'' = [link_f1] \<and> s_role link_f1 = Editor
   \<and> \<not> expired (s_expires_at link_f1) 1000
   \<and> resolveUserRole db0 1000 (Some ''bob'') File ''f1'' (Some ''T'') = Some Editor"
  by (simp add: resolveUserRole_def owner_id_of_def link_rows_def example_defs)

text \<open>
  Claim C1, amended. \<open>resolveUserRole\<close> receives no e-mail and does not read the
  \<open>permissions\<close> table: for every resource, when it is called by a present principal who is
  not the owner and the valid token of the resource's unexpired link is supplied, resolution
  returns the link's role (editor for an editor link), whatever grants the \<open>permissions\<close>
  table holds; a grant neither outranks nor changes the link share.
\<close>

theorem link_decides_whatever_the_grants:
  assumes "owner_id_of d rt rid \<noteq> Some uid"
    and "link_rows d rt rid tok = [sh]" and "tok \<noteq> []"
    and "\<not> expired (s_expires_at sh) now"
  shows "resolveUserRole (d\<lparr> permissions := ps \<rparr>) now (Some uid) rt rid (Some tok)
           = Some (s_role sh)"
proof -
  have "owner_id_of (d\<lparr> permissions := ps \<rparr>) rt rid = owner_id_of d rt rid"
    by (cases rt) (simp_all add: owner_id_of_def)
  moreover have "link_rows (d\<lparr> permissions := ps \<rparr>) rt rid tok = link_rows d rt rid tok"
    by (simp add: link_rows_def)
  ultimately show ?thesis
    using assms by (auto simp add: resolveUserRole_def)
qed

theorem link_decides_whatever_the_grants_witness:
  "owner_id_of db0 File ''f1'' \<noteq> Some ''bob''
   \<and> link_rows db0 File ''f1'' ''T'' = [link_f1] \<and> ''T'' \<noteq> []
   \<and> \<not> expired (s_expires_at link_f1) 1000
   \<and> resolveUserRole (db0\<lparr> permissions := [grant_bob] \<rparr>) 1000 (Some ''bob'') File ''f1''
        (Some ''T'') = Some Editor
   \<and> resolveUserRole (db0\<lparr> permissions := [] \<rparr>) 1000 (Some ''bob'') File ''f1''
        (Some ''T'') = Some Editor"
proof -
  have a: "owner_id_of db0 File ''f1'' \<noteq> Some ''bob''"
    by (simp add: owner_id_of_def example_defs)
  have b: "link_rows db0 File ''f1'' ''T'' = [link_f1]"
    by (simp add: link_rows_def example_defs)
  have c: "''T'' \<noteq> []" by simp
  have e: "\<not> expired (s_expires_at link_f1) 1000" by (simp add: link_f1_def)
  have r: "s_role link_f1 = Editor" by (simp add: link_f1_def)
  show ?thesis
    using a b e r
      link_decides_whatever_the_grants [OF a b c e, of "[grant_bob]"]
      link_decides_whatever_the_grants [OF a b c e, of "[]"]
    by simp
qed

subsection \<open>Share links\<close>

lemma db_created_eq:
  "db_created = db1\<lparr> shares := [\<lparr> s_resource_type = File, s_resource_id = ''f1'',
      s_owner_id = ''alice'', s_role = Viewer, s_expires_at = None, s_link_token = ''T1'' \<rparr>] \<rparr>"
  by (simp add: db_created_def db1_def body_viewer_def create_link_def upsert_share_def
        share_url_def owner_id_of_def example_defs)

lemma db_rotated_eq:
  "db_rotated = db1\<lparr> shares := [\<lparr> s_resource_type = File, s_resource_id = ''f1'',
      s_owner_id = ''alice'', s_role = Editor, s_expires_at = None, s_link_token = ''T1'' \<rparr>] \<rparr>"
  unfolding db_rotated_def db_created_eq
  by (simp add: db1_def body_editor_def create_link_def upsert_share_def share_url_def
        owner_id_of_def example_defs)

text \<open>
  Claim C4 says that every call of the link route generates a fresh token, so that a token
  handed out before a rotation resolves to none afterwards. The handler sends no token with
  its upsert: on the second post for \<open>f1\<close> the existing row keeps \<open>T1\<close>, the reply carries the
  same link as the first, and \<open>T1\<close> still resolves, now to the new role.
\<close>

theorem second_post_keeps_first_token:
  "fst (create_link None db1 1000 ''T1'' False ''alice'' body_viewer)
     = Json \<lparr> link = ''http://localhost:3000/share/file/f1?t=T1'', reply_role = Viewer,
              reply_expires_at = None \<rparr>
   \<and> fst (create_link None db_created 2000 ''T2'' False ''alice'' body_editor)
     = Json \<lparr> link = ''http://localhost:3000/share/file/f1?t=T1'', reply_role = Editor,
              reply_expires_at = None \<rparr>
   \<and> map s_link_token (shares db_rotated) = [''T1'']
   \<and> resolveUserRole db_rotated 3000 None File ''f1'' (Some ''T1'') = Some Editor
   \<and> resolveUserRole db_rotated 3000 None File ''f1'' (Some ''T2'') = None"
proof -
  have 1: "fst (create_link None db1 1000 ''T1'' False ''alice'' body_viewer)
     = Json \<lparr> link = ''http://localhost:3000/share/file/f1?t=T1'', reply_role = Viewer,
              reply_expires_at = None \<rparr>"
    by (simp add: db1_def body_viewer_def create_link_def upsert_share_def share_url_def
          owner_id_of_def example_defs)
  have 2: "fst (create_link None db_created 2000 ''T2'' False ''alice'' body_editor)
     = Json \<lparr> link = ''http://localhost:3000/share/file/f1?t=T1'', reply_role = Editor,
              reply_expires_at = None \<rparr>"
    unfolding db_created_eq
    by (simp add: db1_def body_editor_def create_link_def upsert_share_def share_url_def
          owner_id_of_def example_defs)
  have 3: "map s_link_token (shares db_rotated) = [''T1'']"
    by (simp add: db_rotated_eq)
  have 4: "resolveUserRole db_rotated 3000 None File ''f1'' (Some ''T1'') = Some Editor"
    by (simp add: db_rotated_eq resolveUserRole_def link_rows_def db1_def owner_id_of_def)
  have 5: "resolveUserRole db_rotated 3000 None File ''f1'' (Some ''T2'') = None"
    by (simp add: db_rotated_eq resolveUserRole_def link_rows_def db1_def owner_id_of_def)
  from 1 2 3 4 5 show ?thesis by blast
qed

text \<open>
  What the upsert does keep: a resource that has a link row keeps that row's token, and the
  table never holds two link rows for one (resource type, resource id).
\<close>

lemma upsert_share_keeps_tokens:
  assumes "filter (\<lambda>s. s_resource_type s = rt \<and> s_resource_id s = rid) rows \<noteq> []"
  shows "map s_link_token (upsert_share rows rt rid owner r ex fresh) = map s_link_token rows"
  using assms by (simp add: upsert_share_def comp_def if_distrib cong: if_cong)

lemma upsert_share_keys:
  "map (\<lambda>s. (s_resource_type s, s_resource_id s)) (upsert_share rows rt rid owner r ex fresh) =
     (if filter (\<lambda>s. s_resource_type s = rt \<and> s_resource_id s = rid) rows = []
      then map (\<lambda>s. (s_resource_type s, s_resource_id s)) rows @ [(rt, rid)]
      else map (\<lambda>s. (s_resource_type s, s_resource_id s)) rows)"
  by (simp add: upsert_share_def comp_def if_distrib cong: if_cong)

lemma distinct_filter_eq_one:
  "distinct ks \<Longrightarrow> k \<in> set ks \<Longrightarrow> length (filter (\<lambda>x. x = k) ks) = 1"
proof (induction ks)
  case Nil
  then show ?case by simp
next
  case (Cons a ks)
  show ?case
  proof (cases "a = k")
    case True
    with Cons.prems have "filter (\<lambda>x. x = k) ks = []"
      by (auto simp add: filter_empty_conv)
    with True show ?thesis by simp
  next
    case False
    with Cons show ?thesis by simp
  qed
qed

lemma upsert_share_one_link_per_resource:
  assumes "distinct (map (\<lambda>s. (s_resource_type s, s_resource_id s)) rows)"
  shows "distinct (map (\<lambda>s. (s_resource_type s, s_resource_id s))
                     (upsert_share rows rt rid owner r ex fresh))
       \<and> length (filter (\<lambda>s. s_resource_type s = rt \<and> s_resource_id s = rid)
                   (upsert_share rows rt rid owner r ex fresh)) = 1"
proof -
  let ?key = "\<lambda>s. (s_resource_type s, s_resource_id s)"
  let ?rows' = "upsert_share rows rt rid owner r ex fresh"
  have empty_iff: "filter (\<lambda>s. s_resource_type s = rt \<and> s_resource_id s = rid) rows = []
                    \<longleftrightarrow> (rt, rid) \<notin> set (map ?key rows)"
    by (auto simp add: filter_empty_conv)
  have d: "distinct (map ?key ?rows')"
    using assms empty_iff by (simp add: upsert_share_keys)
  have m: "(rt, rid) \<in> set (map ?key ?rows')"
    using empty_iff by (simp add: upsert_share_keys)
  have "length (filter (\<lambda>s. s_resource_type s = rt \<and> s_resource_id s = rid) ?rows')
          = length (filter (\<lambda>k. k = (rt, rid)) (map ?key ?rows'))"
    by (simp add: filter_map comp_def)
  also have "\<dots> = 1"
    using d m by (rule distinct_filter_eq_one)
  finally show ?thesis using d by simp
qed

subsection \<open>The Supabase server: moves and hard delete\<close>

lemmas server_example_defs = sdb0_def sfolder_F_def sfolder_X_def sfile_a_def sfile_b_def
  bucket0_def

text \<open>
  Claim C2 says that every operation on a resource, the moves included, fails with Forbidden
  for a caller whose role does not permit it, leaving the resource unchanged. The two move
  handlers of \<^verbatim>\<open>server/index.js\<close> never compare the caller with the owner: Bob, who owns
  neither, moves Alice's folder \<open>F\<close> and her file \<open>a\<close> into his folder \<open>X\<close> and is answered
  with the updated rows.
\<close>

theorem move_has_no_ownership_gate:
  "sd_owner sfolder_F = ''alice'' \<and> sf_owner sfile_a = ''alice''
   \<and> server_move_folder sdb0 2000 False ''bob'' ''F'' (Some ''X'')
       = (Json (sfolder_F\<lparr> sd_parent_id := Some ''X'', sd_updated_at := Some 2000 \<rparr>),
          sdb0\<lparr> sfolders := [sfolder_F\<lparr> sd_parent_id := Some ''X'', sd_updated_at := Some 2000 \<rparr>,
                              sfolder_X] \<rparr>)
   \<and> server_move_file sdb0 2000 False ''bob'' ''a'' (Some ''X'')
       = (Json (sfile_a\<lparr> sf_folder_id := Some ''X'', sf_updated_at := Some 2000 \<rparr>),
          sdb0\<lparr> sfiles := [sfile_a\<lparr> sf_folder_id := Some ''X'', sf_updated_at := Some 2000 \<rparr>,
                            sfile_b] \<rparr>)"
  by (simp add: server_move_folder_def server_move_file_def server_example_defs)

text \<open>
  The sibling handlers do have the gate; the soft delete of a folder, for one, answers 403
  to a caller who is not the owner and leaves the store as it was.
\<close>

lemma server_soft_delete_folder_gate:
  assumes "select_folder d False rid = Some folder" and "sd_owner folder \<noteq> uid"
  shows "server_soft_delete_folder d t1 t2 t3 False update_fails cascade_fails uid rid
           = (Status 403, d)"
  using assms by (simp add: server_soft_delete_folder_def)

lemma storage_remove_filter:
  "storage_remove b fails p = filter (\<lambda>ob. \<not> (fst ob = p \<and> \<not> fails)) b"
  by (simp add: storage_remove_def)

lemma remove_blobs_filter:
  "remove_blobs rm_fails ps b = filter (\<lambda>ob. \<not> (fst ob \<in> set ps \<and> \<not> rm_fails (fst ob))) b"
proof (induction ps arbitrary: b)
  case Nil
  then show ?case by simp
next
  case (Cons p ps)
  show ?case
    by (auto simp add: Cons.IH storage_remove_filter intro!: filter_cong)
qed

text \<open>
  Claim C3 says that a purge of a folder in which removing a contained file fails reports
  PartialFailure with the failed items and keeps the folder row. Purging \<open>F\<close> with a storage
  that fails to remove \<open>b\<close>'s blob is answered \<^verbatim>\<open>{ok: true}\<close>; the rows of \<open>a\<close>, \<open>b\<close> and \<open>F\<close>
  are deleted and \<open>b\<close>'s blob stays in the bucket.
\<close>

theorem hard_delete_folder_counterexample:
  "fails_b (sf_bucket_path sfile_b)
   \<and> server_hard_delete_folder sdb0 bucket0 False False fails_b False False ''alice'' ''F''
       = (Json (), \<lparr> sfiles = [], sfolders = [sfolder_X] \<rparr>, [(''user-alice/b_b.txt'', ''B'')])"
  by (simp add: server_hard_delete_folder_def select_folder_def storage_remove_def fails_b_def
        server_example_defs)

text \<open>
  Claim C3, amended. For every hard delete of a folder \<open>F\<close> by its owner in which the
  database statements succeed, blob removal is best effort: whichever removals fail, the
  handler deletes every file row whose \<open>folder_id\<close> is \<open>F\<close> and \<open>F\<close>'s row and answers ok.
  No PartialFailure is reported and the deletion of the folder row does not wait on the
  removals; the blobs whose removal succeeded are gone from the bucket, those whose removal
  failed stay.
\<close>

theorem hard_delete_folder_best_effort:
  assumes "select_folder d False rid = Some folder" and "sd_owner folder = uid"
  shows "server_hard_delete_folder d b False False rm_fails False False uid rid
           = (Json (),
              \<lparr> sfiles = filter (\<lambda>f. sf_folder_id f \<noteq> Some rid) (sfiles d),
                sfolders = filter (\<lambda>r. sd_id r \<noteq> rid) (sfolders d) \<rparr>,
              filter (\<lambda>ob. \<not> (fst ob \<in> set (map sf_bucket_path
                                     (filter (\<lambda>f. sf_folder_id f = Some rid) (sfiles d)))
                               \<and> \<not> rm_fails (fst ob))) b)"
  using assms
  by (simp add: server_hard_delete_folder_def remove_blobs_filter Let_def)

theorem hard_delete_folder_best_effort_witness:
  "select_folder sdb0 False ''F'' = Some sfolder_F \<and> sd_owner sfolder_F = ''alice''
   \<and> server_hard_delete_folder sdb0 bucket0 False False fails_b False False ''alice'' ''F''
       = (Json (), \<lparr> sfiles = [], sfolders = [sfolder_X] \<rparr>, [(''user-alice/b_b.txt'', ''B'')])"
proof -
  have a: "select_folder sdb0 False ''F'' = Some sfolder_F"
    by (simp add: select_folder_def server_example_defs)
  have b: "sd_owner sfolder_F = ''alice''" by (simp add: sfolder_F_def)
  show ?thesis
    using a b hard_delete_folder_best_effort [OF a b, of bucket0 fails_b]
    by (simp add: fails_b_def server_example_defs)
qed

subsection \<open>Folder trash and restore\<close>

lemma filter_update_by_id:
  assumes "\<And>r. key (u r) = key r"
  shows "filter (\<lambda>r. key r = k) (map (\<lambda>r. if key r = k then u r else r) rows)
           = map u (filter (\<lambda>r. key r = k) rows)"
  using assms by (induction rows) auto

lemma select_folder_rows:
  "select_folder d False rid = Some folder \<Longrightarrow> filter (\<lambda>r. sd_id r = rid) (sfolders d) = [folder]"
  by (simp add: select_folder_def single_Some_iff)

lemma server_soft_delete_folder_ok:
  assumes "select_folder d False rid = Some folder" and "sd_owner folder = uid"
  shows "server_soft_delete_folder d t1 t2 t3 False False False uid rid =
           (Json (folder\<lparr> sd_is_deleted := True, sd_deleted_at := Some t1,
                           sd_updated_at := Some t2 \<rparr>),
            \<lparr> sfiles = map (\<lambda>f. if sf_folder_id f = Some rid
                                then f\<lparr> sf_is_deleted := True, sf_deleted_at := Some t3 \<rparr>
                                else f) (sfiles d),
              sfolders = map (\<lambda>r. if sd_id r = rid
                                  then r\<lparr> sd_is_deleted := True, sd_deleted_at := Some t1,
                                         sd_updated_at := Some t2 \<rparr>
                                  else r) (sfolders d) \<rparr>)"
proof -
  have "filter (\<lambda>r. sd_id r = rid)
          (map (\<lambda>r. if sd_id r = rid
                     then r\<lparr> sd_is_deleted := True, sd_deleted_at := Some t1,
                            sd_updated_at := Some t2 \<rparr>
                     else r) (sfolders d))
        = [folder\<lparr> sd_is_deleted := True, sd_deleted_at := Some t1, sd_updated_at := Some t2 \<rparr>]"
    by (subst filter_update_by_id) (simp_all add: select_folder_rows [OF assms(1)])
  then show ?thesis
    using assms by (simp add: server_soft_delete_folder_def)
qed

lemma server_restore_folder_ok:
  assumes "select_folder d False rid = Some folder" and "sd_owner folder = uid"
  shows "server_restore_folder d t4 False False False uid rid =
           (Json (folder\<lparr> sd_is_deleted := False, sd_deleted_at := None,
                           sd_updated_at := Some t4 \<rparr>),
            \<lparr> sfiles = map (\<lambda>f. if sf_folder_id f = Some rid
                                then f\<lparr> sf_is_deleted := False, sf_deleted_at := None \<rparr>
                                else f) (sfiles d),
              sfolders = map (\<lambda>r. if sd_id r = rid
                                  then r\<lparr> sd_is_deleted := False, sd_deleted_at := None,
                                         sd_updated_at := Some t4 \<rparr>
                                  else r) (sfolders d) \<rparr>)"
proof -
  have "filter (\<lambda>r. sd_id r = rid)
          (map (\<lambda>r. if sd_id r = rid
                     then r\<lparr> sd_is_deleted := False, sd_deleted_at := None,
                            sd_updated_at := Some t4 \<rparr>
                     else r) (sfolders d))
        = [folder\<lparr> sd_is_deleted := False, sd_deleted_at := None, sd_updated_at := Some t4 \<rparr>]"
    by (subst filter_update_by_id) (simp_all add: select_folder_rows [OF assms(1)])
  then show ?thesis
    using assms by (simp add: server_restore_folder_def)
qed

lemma select_folder_after_soft_delete:
  assumes "select_folder d False rid = Some folder" and "sd_owner folder = uid"
  shows "select_folder (snd (server_soft_delete_folder d t1 t2 t3 False False False uid rid))
           False rid
         = Some (folder\<lparr> sd_is_deleted := True, sd_deleted_at := Some t1,
                         sd_updated_at := Some t2 \<rparr>)"
proof -
  have "filter (\<lambda>r. sd_id r = rid)
          (map (\<lambda>r. if sd_id r = rid
                     then r\<lparr> sd_is_deleted := True, sd_deleted_at := Some t1,
                            sd_updated_at := Some t2 \<rparr>
                     else r) (sfolders d))
        = [folder\<lparr> sd_is_deleted := True, sd_deleted_at := Some t1, sd_updated_at := Some t2 \<rparr>]"
    by (subst filter_update_by_id) (simp_all add: select_folder_rows [OF assms(1)])
  then show ?thesis
    by (simp add: server_soft_delete_folder_ok [OF assms] select_folder_def)
qed

lemma restore_after_soft_delete_files:
  assumes "select_folder d False rid = Some folder" and "sd_owner folder = uid"
  shows "sfiles (snd (server_restore_folder
                        (snd (server_soft_delete_folder d t1 t2 t3 False False False uid rid))
                        t4 False False False uid rid))
         = map (\<lambda>f. if sf_folder_id f = Some rid
                     then f\<lparr> sf_is_deleted := False, sf_deleted_at := None \<rparr> else f) (sfiles d)"
proof -
  let ?folder1 = "folder\<lparr> sd_is_deleted := True, sd_deleted_at := Some t1,
                           sd_updated_at := Some t2 \<rparr>"
  have s: "select_folder (snd (server_soft_delete_folder d t1 t2 t3 False False False uid rid))
             False rid = Some ?folder1"
    by (rule select_folder_after_soft_delete [OF assms])
  have o: "sd_owner ?folder1 = uid" using assms(2) by simp
  have "sfiles (snd (server_restore_folder
                        (snd (server_soft_delete_folder d t1 t2 t3 False False False uid rid))
                        t4 False False False uid rid))
        = map (\<lambda>f. if sf_folder_id f = Some rid
                    then f\<lparr> sf_is_deleted := False, sf_deleted_at := None \<rparr> else f)
            (sfiles (snd (server_soft_delete_folder d t1 t2 t3 False False False uid rid)))"
    by (simp only: server_restore_folder_ok [OF s o] snd_conv sdb.simps)
  also have "\<dots> = map (\<lambda>f. if sf_folder_id f = Some rid
                     then f\<lparr> sf_is_deleted := False, sf_deleted_at := None \<rparr> else f) (sfiles d)"
    by (simp add: server_soft_delete_folder_ok [OF assms] comp_def if_distrib cong: if_cong)
  finally show ?thesis .
qed


lemma filter_others_update:
  assumes "\<And>r. key (u r) = key r"
  shows "filter (\<lambda>r. key r \<noteq> k) (map (\<lambda>r. if key r = k then u r else r) rows)
           = filter (\<lambda>r. key r \<noteq> k) rows"
  using assms by (induction rows) auto

lemma updated_rows_satisfy:
  assumes "\<And>r. key (u r) = key r" and "\<And>r. Q (u r)"
  shows "\<forall>x \<in> set (map (\<lambda>r. if key r = k then u r else r) rows). key x = k \<longrightarrow> Q x"
  using assms by (induction rows) simp_all

lemma map_clear_active:
  assumes "\<forall>f \<in> set rows. sf_folder_id f = k \<longrightarrow> \<not> sf_is_deleted f \<and> sf_deleted_at f = None"
  shows "map (\<lambda>f. if sf_folder_id f = k
                  then f\<lparr> sf_is_deleted := False, sf_deleted_at := None \<rparr> else f) rows = rows"
  using assms
proof (induction rows)
  case Nil
  then show ?case by simp
next
  case (Cons f rows)
  then have "(if sf_folder_id f = k
              then f\<lparr> sf_is_deleted := False, sf_deleted_at := None \<rparr> else f) = f"
    by (cases f) simp
  with Cons show ?case by simp
qed

lemma restore_after_soft_delete_folders:
  assumes "select_folder d False rid = Some folder" and "sd_owner folder = uid"
  shows "sfolders (snd (server_restore_folder
                        (snd (server_soft_delete_folder d t1 t2 t3 False False False uid rid))
                        t4 False False False uid rid))
         = map (\<lambda>r. if sd_id r = rid
                     then r\<lparr> sd_is_deleted := False, sd_deleted_at := None,
                            sd_updated_at := Some t4 \<rparr> else r) (sfolders d)"
proof -
  let ?folder1 = "folder\<lparr> sd_is_deleted := True, sd_deleted_at := Some t1,
                           sd_updated_at := Some t2 \<rparr>"
  have s: "select_folder (snd (server_soft_delete_folder d t1 t2 t3 False False False uid rid))
             False rid = Some ?folder1"
    by (rule select_folder_after_soft_delete [OF assms])
  have o: "sd_owner ?folder1 = uid" using assms(2) by simp
  have "sfolders (snd (server_restore_folder
                        (snd (server_soft_delete_folder d t1 t2 t3 False False False uid rid))
                        t4 False False False uid rid))
        = map (\<lambda>r. if sd_id r = rid
                    then r\<lparr> sd_is_deleted := False, sd_deleted_at := None,
                           sd_updated_at := Some t4 \<rparr> else r)
            (sfolders (snd (server_soft_delete_folder d t1 t2 t3 False False False uid rid)))"
    by (simp only: server_restore_folder_ok [OF s o] snd_conv sdb.simps)
  also have "\<dots> = map (\<lambda>r. if sd_id r = rid
                     then r\<lparr> sd_is_deleted := False, sd_deleted_at := None,
                            sd_updated_at := Some t4 \<rparr> else r) (sfolders d)"
    by (simp add: server_soft_delete_folder_ok [OF assms] comp_def if_distrib cong: if_cong)
  finally show ?thesis .
qed

text \<open>
  Claim C8 says that soft-deleting a folder stamps the folder and every file directly in it
  with the same timestamp in one operation, and that restore inverts exactly that. Under the
  folders router, soft-deleting Alice's folder \<open>docs\<close> stamps the folder and leaves the
  file \<open>f1\<close> inside it unmarked. On the Supabase server, soft-deleting \<open>F\<close> when the clock
  reads 1000 for the folder statement and 1007 for the cascade statement stamps the folder
  with 1000 and its files with 1007.
\<close>

theorem folder_trash_cascade_counterexample:
  "f_folder_id file_f1 = Some ''docs''
   \<and> fst (soft_delete_folder db0 1000 False ''alice'' ''docs'') = Json ''Moved to Trash''
   \<and> map d_deleted_at (folders (snd (soft_delete_folder db0 1000 False ''alice'' ''docs'')))
       = [Some 1000]
   \<and> map f_deleted_at (files (snd (soft_delete_folder db0 1000 False ''alice'' ''docs'')))
       = [None]
   \<and> map sd_deleted_at
        (sfolders (snd (server_soft_delete_folder sdb0 1000 1000 1007 False False False
                          ''alice'' ''F''))) = [Some 1000, None]
   \<and> map sf_deleted_at
        (sfiles (snd (server_soft_delete_folder sdb0 1000 1000 1007 False False False
                        ''alice'' ''F''))) = [Some 1007, Some 1007]"
  by (simp add: soft_delete_folder_def owner_id_of_def example_defs
        server_soft_delete_folder_def select_folder_def server_example_defs)

text \<open>
  Claim C8, amended. For every folder \<open>F\<close> soft-deleted or restored by its owner, the
  statements succeeding. On the Supabase server, soft-deleting \<open>F\<close> marks \<open>F\<close> deleted with
  the clock reading of the folder statement and marks every file whose \<open>folder_id\<close> is \<open>F\<close>
  deleted with the clock reading of the cascade statement issued after it (the two stamps
  need not be equal); no file is added, dropped or moved and the other files are unchanged.
  Restoring \<open>F\<close> afterwards clears the mark on \<open>F\<close> and on exactly the files whose
  \<open>folder_id\<close> is \<open>F\<close>, the other files being as before; when those files were active
  before the soft delete, the files table is again what it was. Under the folders router of
  the TypeScript application, soft delete and restore set and clear \<open>deleted_at\<close> on the
  folder row only: the files table is unchanged.
\<close>

theorem folder_trash_cascade:
  assumes "select_folder d False rid = Some folder" and "sd_owner folder = uid"
    and "owner_id_of td Folder tid = Some tuid"
  shows
    "(let d1 = snd (server_soft_delete_folder d t1 t2 t3 False False False uid rid);
          d2 = snd (server_restore_folder d1 t4 False False False uid rid);
          td1 = snd (soft_delete_folder td now False tuid tid);
          td2 = snd (restore_folder td False tuid tid)
      in (\<forall>r \<in> set (sfolders d1). sd_id r = rid \<longrightarrow> sd_is_deleted r \<and> sd_deleted_at r = Some t1)
       \<and> (\<forall>f \<in> set (sfiles d1). sf_folder_id f = Some rid \<longrightarrow>
             sf_is_deleted f \<and> sf_deleted_at f = Some t3)
       \<and> filter (\<lambda>f. sf_folder_id f \<noteq> Some rid) (sfiles d1)
           = filter (\<lambda>f. sf_folder_id f \<noteq> Some rid) (sfiles d)
       \<and> map sf_id (sfiles d1) = map sf_id (sfiles d)
       \<and> map sf_folder_id (sfiles d1) = map sf_folder_id (sfiles d)
       \<and> (\<forall>r \<in> set (sfolders d2). sd_id r = rid \<longrightarrow> \<not> sd_is_deleted r \<and> sd_deleted_at r = None)
       \<and> (\<forall>f \<in> set (sfiles d2). sf_folder_id f = Some rid \<longrightarrow>
             \<not> sf_is_deleted f \<and> sf_deleted_at f = None)
       \<and> filter (\<lambda>f. sf_folder_id f \<noteq> Some rid) (sfiles d2)
           = filter (\<lambda>f. sf_folder_id f \<noteq> Some rid) (sfiles d)
       \<and> ((\<forall>f \<in> set (sfiles d). sf_folder_id f = Some rid \<longrightarrow>
              \<not> sf_is_deleted f \<and> sf_deleted_at f = None) \<longrightarrow> sfiles d2 = sfiles d)
       \<and> files td1 = files td
       \<and> (\<forall>r \<in> set (folders td1). d_id r = tid \<longrightarrow> d_deleted_at r = Some now)
       \<and> files td2 = files td
       \<and> (\<forall>r \<in> set (folders td2). d_id r = tid \<longrightarrow> d_deleted_at r = None))"
proof -
  let ?d1 = "snd (server_soft_delete_folder d t1 t2 t3 False False False uid rid)"
  let ?d2 = "snd (server_restore_folder ?d1 t4 False False False uid rid)"
  let ?td1 = "snd (soft_delete_folder td now False tuid tid)"
  let ?td2 = "snd (restore_folder td False tuid tid)"
  let ?others = "\<lambda>f. sf_folder_id f \<noteq> Some rid"
  note ok = server_soft_delete_folder_ok [OF assms(1,2)]
  note files2 = restore_after_soft_delete_files [OF assms(1,2)]
  note folders2 = restore_after_soft_delete_folders [OF assms(1,2)]
  have c1: "\<forall>r \<in> set (sfolders ?d1). sd_id r = rid \<longrightarrow>
              sd_is_deleted r \<and> sd_deleted_at r = Some t1"
    unfolding ok snd_conv sdb.select_convs
    by (rule updated_rows_satisfy [where key = sd_id]) simp_all
  have c2: "\<forall>f \<in> set (sfiles ?d1). sf_folder_id f = Some rid \<longrightarrow>
              sf_is_deleted f \<and> sf_deleted_at f = Some t3"
    unfolding ok snd_conv sdb.select_convs
    by (rule updated_rows_satisfy [where key = sf_folder_id]) simp_all
  have c3: "filter ?others (sfiles ?d1) = filter ?others (sfiles d)"
    unfolding ok snd_conv sdb.select_convs
    by (rule filter_others_update [where key = sf_folder_id]) simp
  have c4: "map sf_id (sfiles ?d1) = map sf_id (sfiles d)"
    by (simp add: ok comp_def if_distrib cong: if_cong)
  have c5: "map sf_folder_id (sfiles ?d1) = map sf_folder_id (sfiles d)"
    by (simp add: ok comp_def if_distrib cong: if_cong)
  have c6: "\<forall>r \<in> set (sfolders ?d2). sd_id r = rid \<longrightarrow>
              \<not> sd_is_deleted r \<and> sd_deleted_at r = None"
    unfolding folders2
    by (rule updated_rows_satisfy [where key = sd_id]) simp_all
  have c7: "\<forall>f \<in> set (sfiles ?d2). sf_folder_id f = Some rid \<longrightarrow>
              \<not> sf_is_deleted f \<and> sf_deleted_at f = None"
    unfolding files2
    by (rule updated_rows_satisfy [where key = sf_folder_id]) simp_all
  have c8: "filter ?others (sfiles ?d2) = filter ?others (sfiles d)"
    unfolding files2
    by (rule filter_others_update [where key = sf_folder_id]) simp
  have c9: "(\<forall>f \<in> set (sfiles d). sf_folder_id f = Some rid \<longrightarrow>
              \<not> sf_is_deleted f \<and> sf_deleted_at f = None) \<longrightarrow> sfiles ?d2 = sfiles d"
    unfolding files2 by (rule impI) (rule map_clear_active)
  have t1: "?td1 = td\<lparr> folders := map (\<lambda>r. if d_id r = tid then r\<lparr> d_deleted_at := Some now \<rparr>
                                          else r) (folders td) \<rparr>"
    using assms(3) by (simp add: soft_delete_folder_def)
  have t2: "?td2 = td\<lparr> folders := map (\<lambda>r. if d_id r = tid then r\<lparr> d_deleted_at := None \<rparr>
                                          else r) (folders td) \<rparr>"
    using assms(3) by (simp add: restore_folder_def)
  have c10: "files ?td1 = files td"
    unfolding t1 by simp
  have f1: "folders ?td1 = map (\<lambda>r. if d_id r = tid then r\<lparr> d_deleted_at := Some now \<rparr> else r)
                             (folders td)"
    unfolding t1 by simp
  have c11: "\<forall>r \<in> set (folders ?td1). d_id r = tid \<longrightarrow> d_deleted_at r = Some now"
    unfolding f1
    by (rule updated_rows_satisfy [where key = d_id]) simp_all
  have c12: "files ?td2 = files td"
    unfolding t2 by simp
  have f2: "folders ?td2 = map (\<lambda>r. if d_id r = tid then r\<lparr> d_deleted_at := None \<rparr> else r)
                             (folders td)"
    unfolding t2 by simp
  have c13: "\<forall>r \<in> set (folders ?td2). d_id r = tid \<longrightarrow> d_deleted_at r = None"
    unfolding f2
    by (rule updated_rows_satisfy [where key = d_id]) simp_all
  show ?thesis
    unfolding Let_def
    by (intro conjI c1 c2 c3 c4 c5 c6 c7 c8 c9 c10 c11 c12 c13)
qed


theorem folder_trash_cascade_witness:
  "select_folder sdb0 False ''F'' = Some sfolder_F \<and> sd_owner sfolder_F = ''alice''
   \<and> owner_id_of db0 Folder ''docs'' = Some ''alice''
   \<and> map sd_deleted_at
        (sfolders (snd (server_soft_delete_folder sdb0 1000 1001 1007 False False False
                          ''alice'' ''F''))) = [Some 1000, None]
   \<and> map sf_deleted_at
        (sfiles (snd (server_soft_delete_folder sdb0 1000 1001 1007 False False False
                        ''alice'' ''F''))) = [Some 1007, Some 1007]
   \<and> sfiles (snd (server_restore_folder
                    (snd (server_soft_delete_folder sdb0 1000 1001 1007 False False False
                            ''alice'' ''F''))
                    2000 False False False ''alice'' ''F'')) = sfiles sdb0
   \<and> files (snd (soft_delete_folder db0 1000 False ''alice'' ''docs'')) = files db0
   \<and> files (snd (restore_folder db0 False ''alice'' ''docs'')) = files db0"
proof -
  have a: "select_folder sdb0 False ''F'' = Some sfolder_F"
    by (simp add: select_folder_def server_example_defs)
  have b: "sd_owner sfolder_F = ''alice''" by (simp add: sfolder_F_def)
  have c: "owner_id_of db0 Folder ''docs'' = Some ''alice''"
    by (simp add: owner_id_of_def example_defs)
  have active: "\<forall>f \<in> set (sfiles sdb0). sf_folder_id f = Some ''F'' \<longrightarrow>
                  \<not> sf_is_deleted f \<and> sf_deleted_at f = None"
    by (simp add: server_example_defs)
  have stamps: "map sd_deleted_at
        (sfolders (snd (server_soft_delete_folder sdb0 1000 1001 1007 False False False
                          ''alice'' ''F''))) = [Some 1000, None]
     \<and> map sf_deleted_at
        (sfiles (snd (server_soft_delete_folder sdb0 1000 1001 1007 False False False
                        ''alice'' ''F''))) = [Some 1007, Some 1007]"
    by (simp add: server_soft_delete_folder_def select_folder_def server_example_defs)
  from folder_trash_cascade [OF a b c, of 1000 1001 1007 2000 1000] active
  have "sfiles (snd (server_restore_folder
                    (snd (server_soft_delete_folder sdb0 1000 1001 1007 False False False
                            ''alice'' ''F''))
                    2000 False False False ''alice'' ''F'')) = sfiles sdb0
     \<and> files (snd (soft_delete_folder db0 1000 False ''alice'' ''docs'')) = files db0
     \<and> files (snd (restore_folder db0 False ''alice'' ''docs'')) = files db0"
    unfolding Let_def by blast
  with a b c stamps show ?thesis by blast
qed

subsection \<open>Uploads\<close>







subsection \<open>Search\<close>





















end
